theory Spec2Isabelle
  imports Complex_Main "HOL-Library.Code_Target_Numeral"
begin

section \<open>JavaScript numbers\<close>

text \<open>
  A JavaScript number is an IEEE 754 double.  A finite one is given here by its exact
  value, a rational; the two zeros are one value, since no handler divides by a number or
  looks at the sign of a zero.  An arithmetic operation returns the double nearest to the
  exact result, on a tie the one whose significand is even, and an infinity when that
  double would lie beyond the largest one.
\<close>

datatype number = Finite rat | PosInfinity | NegInfinity | NaN

text \<open>\<open>bits n\<close> is the number of binary digits of \<open>n\<close>.\<close>

fun bits :: "nat \<Rightarrow> nat" where
  "bits n = (if n = 0 then 0 else Suc (bits (n div 2)))"

declare bits.simps [simp del]

definition pow2 :: "int \<Rightarrow> rat" where
  "pow2 e = (if 0 \<le> e then 2 ^ nat e else 1 / 2 ^ nat (- e))"

text \<open>For \<open>a > 0\<close>, \<open>floorlog2 a\<close> is the integer \<open>k\<close> with \<open>2\<^sup>k \<le> a < 2\<^sup>k\<^sup>+\<^sup>1\<close>.\<close>

definition floorlog2 :: "rat \<Rightarrow> int" where
  "floorlog2 a =
     (if 1 \<le> a then int (bits (nat \<lfloor>a\<rfloor>)) - 1
      else - int (bits (nat \<lceil>1 / a\<rceil> - 1)))"

definition roundHalfEven :: "rat \<Rightarrow> int" where
  "roundHalfEven x =
     (let f = \<lfloor>x\<rfloor>; d = x - of_int f
      in if d < 1 / 2 then f
         else if 1 / 2 < d then f + 1
         else if even f then f else f + 1)"

text \<open>
  A double has a significand of 53 binary digits and an exponent that puts its last digit
  at \<open>2\<^sup>e\<close> with \<open>-1074 \<le> e \<le> 971\<close>.
\<close>

definition roundToDouble :: "rat \<Rightarrow> number" where
  "roundToDouble x =
     (if x = 0 then Finite 0
      else
        let a = \<bar>x\<bar>;
            e = max (floorlog2 a - 52) (- 1074);
            m = roundHalfEven (a / pow2 e)
        in if 971 < e \<or> (e = 971 \<and> m = 2 ^ 53)
           then (if x < 0 then NegInfinity else PosInfinity)
           else Finite (sgn x * of_int m * pow2 e))"

fun Number_add :: "number \<Rightarrow> number \<Rightarrow> number" where
  "Number_add NaN _ = NaN"
| "Number_add _ NaN = NaN"
| "Number_add PosInfinity NegInfinity = NaN"
| "Number_add NegInfinity PosInfinity = NaN"
| "Number_add PosInfinity _ = PosInfinity"
| "Number_add _ PosInfinity = PosInfinity"
| "Number_add NegInfinity _ = NegInfinity"
| "Number_add _ NegInfinity = NegInfinity"
| "Number_add (Finite a) (Finite b) = roundToDouble (a + b)"

fun Number_mul :: "number \<Rightarrow> number \<Rightarrow> number" where
  "Number_mul NaN _ = NaN"
| "Number_mul _ NaN = NaN"
| "Number_mul (Finite a) (Finite b) = roundToDouble (a * b)"
| "Number_mul (Finite a) PosInfinity =
     (if a = 0 then NaN else if 0 < a then PosInfinity else NegInfinity)"
| "Number_mul (Finite a) NegInfinity =
     (if a = 0 then NaN else if 0 < a then NegInfinity else PosInfinity)"
| "Number_mul PosInfinity (Finite b) =
     (if b = 0 then NaN else if 0 < b then PosInfinity else NegInfinity)"
| "Number_mul NegInfinity (Finite b) =
     (if b = 0 then NaN else if 0 < b then NegInfinity else PosInfinity)"
| "Number_mul PosInfinity PosInfinity = PosInfinity"
| "Number_mul PosInfinity NegInfinity = NegInfinity"
| "Number_mul NegInfinity PosInfinity = NegInfinity"
| "Number_mul NegInfinity NegInfinity = PosInfinity"

definition isDouble :: "rat \<Rightarrow> bool" where
  "isDouble x \<longleftrightarrow> roundToDouble x = Finite x"

text \<open>
  \<open>plusOne q\<close> is \<^verbatim>\<open>q + 1\<close> for an integer \<open>q\<close>.  The sum of a double and one is never
  infinite; the last case is there for the integers that are no doubles.
\<close>

definition plusOne :: "int \<Rightarrow> int" where
  "plusOne q =
     (case Number_add (Finite (of_int q)) (Finite 1) of
        Finite r \<Rightarrow> \<lfloor>r\<rfloor>
      | _ \<Rightarrow> q)"

subsection \<open>Printing an integer\<close>

fun digits :: "nat \<Rightarrow> string" where
  "digits n =
     (if n < 10 then [char_of (48 + n)]
      else digits (n div 10) @ [char_of (48 + n mod 10)])"

text \<open>
  \<^verbatim>\<open>Number.prototype.toString\<close> writes the shortest decimal that reads back as the same
  double: of the decimals with the fewest significant digits the one nearest to the number,
  with an even last digit on a tie.  \<open>shortestAt x j\<close> looks for it among the multiples of
  \<open>10\<^sup>j\<close> next to \<open>x\<close>, and \<open>shortestDecimal x\<close> takes the largest \<open>j\<close> that has one.
\<close>

definition roundsTo :: "int \<Rightarrow> int \<Rightarrow> bool" where
  "roundsTo c x \<longleftrightarrow> roundToDouble (of_int c) = Finite (of_int x)"

definition shortestAt :: "int \<Rightarrow> nat \<Rightarrow> int option" where
  "shortestAt x j =
     (let p = 10 ^ j; lo = (x div p) * p; hi = lo + p;
          okLo = roundsTo lo x; okHi = roundsTo hi x
      in if okLo \<and> okHi then
           Some (if x - lo < hi - x then lo
                 else if hi - x < x - lo then hi
                 else if even (x div p) then lo else hi)
         else if okLo then Some lo
         else if okHi then Some hi
         else None)"

fun firstSome :: "('a \<Rightarrow> 'b option) \<Rightarrow> 'a list \<Rightarrow> 'b option" where
  "firstSome f [] = None"
| "firstSome f (k # ks) = (case f k of Some v \<Rightarrow> Some v | None \<Rightarrow> firstSome f ks)"

definition shortestDecimal :: "int \<Rightarrow> int" where
  "shortestDecimal x =
     (case firstSome (shortestAt x) (rev [0..<length (digits (nat x))]) of
        Some v \<Rightarrow> v
      | None \<Rightarrow> x)"

text \<open>
  A positive integer-valued double is written with all its digits up to 21 of them, and
  with an exponent from there on.  An integer up to \<open>2\<^sup>5\<^sup>3\<close> is a double and the only
  integer that rounds to it, so its shortest decimal is the integer itself.
\<close>

definition Number_toString_pos :: "nat \<Rightarrow> string" where
  "Number_toString_pos n =
     (if n \<le> 2 ^ 53 then digits n
      else
        let ds = digits (nat (shortestDecimal (int n)));
            sig = rev (dropWhile (\<lambda>c. c = CHR ''0'') (rev ds))
        in if length ds \<le> 21 then ds
           else [hd sig] @ (if length sig = 1 then [] else CHR ''.'' # tl sig)
                @ ''e+'' @ digits (length ds - 1))"

definition Number_toString :: "int \<Rightarrow> string" where
  "Number_toString x =
     (if x < 0 then CHR ''-'' # Number_toString_pos (nat (- x)) else Number_toString_pos (nat x))"

section \<open>JavaScript values carried as product options\<close>

text \<open>
  A product's \<^verbatim>\<open>options\<close> and a line item's \<^verbatim>\<open>selected_options\<close> are arbitrary
  JavaScript data.  An object is the list of its own enumerable properties in enumeration
  order.  \<open>JNum n\<close> is the number that the integer literal \<open>n\<close> denotes; numbers with a
  fractional part are left out.  Strings are strings of bytes.
\<close>

datatype jsval =
    JUndefined
  | JNull
  | JBool bool
  | JNum int
  | JStr string
  | JArr "jsval list"
  | JObj "(string \<times> jsval) list"

subsection \<open>\<^verbatim>\<open>JSON.stringify\<close>\<close>

definition hex_digit :: "nat \<Rightarrow> char" where
  "hex_digit n = (if n < 10 then char_of (48 + n) else char_of (87 + n))"

definition QuoteJSONChar :: "char \<Rightarrow> string" where
  "QuoteJSONChar c =
     (if c = CHR 0x08 then [CHR 0x5C, CHR ''b'']
      else if c = CHR 0x09 then [CHR 0x5C, CHR ''t'']
      else if c = CHR 0x0A then [CHR 0x5C, CHR ''n'']
      else if c = CHR 0x0C then [CHR 0x5C, CHR ''f'']
      else if c = CHR 0x0D then [CHR 0x5C, CHR ''r'']
      else if c = CHR 0x22 then [CHR 0x5C, CHR 0x22]
      else if c = CHR 0x5C then [CHR 0x5C, CHR 0x5C]
      else if (of_char c :: nat) < 32
        then [CHR 0x5C, CHR ''u'', CHR ''0'', CHR ''0'',
              hex_digit (of_char c div 16), hex_digit (of_char c mod 16)]
      else [c])"

definition QuoteJSONString :: "string \<Rightarrow> string" where
  "QuoteJSONString s = [CHR 0x22] @ concat (map QuoteJSONChar s) @ [CHR 0x22]"

fun join_comma :: "string list \<Rightarrow> string" where
  "join_comma [] = []"
| "join_comma [t] = t"
| "join_comma (t # ts) = t @ '','' @ join_comma ts"

text \<open>
  \<^verbatim>\<open>JSON.stringify(v)\<close> without replacer or indentation.  The result \<open>None\<close> is the
  JavaScript value \<^verbatim>\<open>undefined\<close>.  An array element that serialises to
  \<^verbatim>\<open>undefined\<close> is written \<^verbatim>\<open>null\<close>; an object property that does so is left out.
  A number that is not finite is written \<^verbatim>\<open>null\<close>.
\<close>

primrec JSON_stringify :: "jsval \<Rightarrow> string option" where
  "JSON_stringify JUndefined = None"
| "JSON_stringify JNull = Some ''null''"
| "JSON_stringify (JBool b) = Some (if b then ''true'' else ''false'')"
| "JSON_stringify (JNum n) =
     (case roundToDouble (of_int n) of
        Finite x \<Rightarrow> Some (Number_toString \<lfloor>x\<rfloor>)
      | _ \<Rightarrow> Some ''null'')"
| "JSON_stringify (JStr s) = Some (QuoteJSONString s)"
| "JSON_stringify (JArr xs) =
     Some (''['' @ join_comma (map (\<lambda>r. case r of None \<Rightarrow> ''null'' | Some t \<Rightarrow> t)
                                  (map JSON_stringify xs)) @ '']'')"
| "JSON_stringify (JObj ps) =
     Some (''{'' @ join_comma (concat (map (\<lambda>(k, r). case r of None \<Rightarrow> []
                                                   | Some t \<Rightarrow> [QuoteJSONString k @ '':'' @ t])
                                          (map (map_prod id JSON_stringify) ps))) @ ''}'')"

subsection \<open>Deep equality, as the specification words it\<close>

text \<open>
  The specification speaks of options compared "by deep value".  This is that comparison,
  written from the specification and not from the source: primitives are equal when
  identical (two integer literals when they denote the same number), arrays when equal
  element by element, objects when they have the same
  property names with deeply equal values, in whatever order the properties are listed.
\<close>

primrec deep_equal :: "jsval \<Rightarrow> jsval \<Rightarrow> bool" where
  "deep_equal JUndefined b = (b = JUndefined)"
| "deep_equal JNull b = (b = JNull)"
| "deep_equal (JBool x) b = (b = JBool x)"
| "deep_equal (JNum n) b =
     (case b of JNum m \<Rightarrow> roundToDouble (of_int n) = roundToDouble (of_int m) | _ \<Rightarrow> False)"
| "deep_equal (JStr s) b = (b = JStr s)"
| "deep_equal (JArr xs) b =
     (case b of JArr ys \<Rightarrow> list_all2 (\<lambda>eq y. eq y) (map deep_equal xs) ys | _ \<Rightarrow> False)"
| "deep_equal (JObj ps) b =
     (case b of
        JObj qs \<Rightarrow>
          length ps = length qs \<and>
          list_all (\<lambda>(k, eq). case map_of qs k of None \<Rightarrow> False | Some w \<Rightarrow> eq w)
                   (map (map_prod id deep_equal) ps)
      | _ \<Rightarrow> False)"

text \<open>
  An object literal cannot name a property twice; \<open>distinctKeys\<close> says so of a value
  and of everything nested in it.
\<close>

primrec distinctKeys :: "jsval \<Rightarrow> bool" where
  "distinctKeys JUndefined = True"
| "distinctKeys JNull = True"
| "distinctKeys (JBool b) = True"
| "distinctKeys (JNum n) = True"
| "distinctKeys (JStr s) = True"
| "distinctKeys (JArr xs) = list_all (\<lambda>ok. ok) (map distinctKeys xs)"
| "distinctKeys (JObj ps) =
     (distinct (map fst ps) \<and> list_all (\<lambda>(k, ok). ok) (map (map_prod id distinctKeys) ps))"

section \<open>Data model\<close>

text \<open>
  A price is a finite number, given by its exact value; a quantity and a position in the
  cart are integers.  A product that carries no \<^verbatim>\<open>options\<close> has \<open>JUndefined\<close> there.
\<close>

record product =
  id' :: string
  name :: string
  description :: string
  price :: rat
  category :: string
  image_url :: string
  options :: jsval

record line_item =
  product_id :: string
  product_name :: string
  quantity :: int
  price :: rat
  selected_options :: jsval

datatype order =
  Order (order_id: string) (customer_email: string) (customer_note: string)
        (items: "line_item list") (total_amount: rat) (created_at: string)

record toast_options =
  title :: string
  description :: string
  variant :: "string option"
  duration :: "nat option"

datatype axios_error = NetworkError | BadStatus nat

datatype request =
    GET_products
  | GET_orders
  | POST_orders string string "line_item list"

text \<open>
  Event handlers run one at a time, each on the state the previous one left.  The state
  is the component's state hooks, followed by the effects it has on the outside: the toasts
  shown, the HTTP requests sent and the lines written by \<^verbatim>\<open>console.error\<close>, each oldest
  first.
\<close>

record app_state =
  products :: "product list"
  cart :: "line_item list"
  orders :: "order list"
  isAdminOpen :: bool
  isCartOpen :: bool
  isCheckoutOpen :: bool
  customerEmail :: string
  customerNote :: string
  loading :: bool
  toasts :: "toast_options list"
  requests :: "request list"
  console :: "(string \<times> axios_error) list"

definition init_state :: app_state where
  "init_state =
     \<lparr>products = [], cart = [], orders = [], isAdminOpen = False, isCartOpen = False,
      isCheckoutOpen = False, customerEmail = '''', customerNote = '''', loading = False,
      toasts = [], requests = [], console = []\<rparr>"

definition toast :: "toast_options \<Rightarrow> app_state \<Rightarrow> app_state" where
  "toast t s = s\<lparr>toasts := toasts s @ [t]\<rparr>"

section \<open>Handlers\<close>

subsection \<open>The notifications the handlers show\<close>

definition loadProductsFailedToast :: toast_options where
  "loadProductsFailedToast =
     \<lparr>title = ''Error'', description = ''Failed to load products'',
      variant = Some ''destructive'', duration = None\<rparr>"

definition loadOrdersFailedToast :: toast_options where
  "loadOrdersFailedToast =
     \<lparr>title = ''Error'', description = ''Failed to load orders'',
      variant = Some ''destructive'', duration = None\<rparr>"

definition addedToCartToast :: "product \<Rightarrow> toast_options" where
  "addedToCartToast product =
     \<lparr>title = ''Added to cart'',
      description = name product @ '' has been added to your cart'',
      variant = None, duration = None\<rparr>"

definition emailRequiredToast :: toast_options where
  "emailRequiredToast =
     \<lparr>title = ''Email required'', description = ''Please enter your email address'',
      variant = Some ''destructive'', duration = None\<rparr>"

definition cartEmptyToast :: toast_options where
  "cartEmptyToast =
     \<lparr>title = ''Cart is empty'',
      description = ''Please add items to your cart before checkout'',
      variant = Some ''destructive'', duration = None\<rparr>"

definition orderPlacedToast :: toast_options where
  "orderPlacedToast =
     \<lparr>title = ''Order placed successfully!'',
      description = ''We will send you the invoice in your email shortly, and will be in touch with you via email.'',
      variant = None, duration = Some 5000\<rparr>"

definition orderFailedToast :: toast_options where
  "orderFailedToast =
     \<lparr>title = ''Error'', description = ''Failed to place order. Please try again.'',
      variant = Some ''destructive'', duration = None\<rparr>"

subsection \<open>Loading products and orders\<close>

text \<open>
  The outcome of the HTTP call is an argument: \<open>Inr\<close> the response data, \<open>Inl\<close> the
  error the promise is rejected with.
\<close>

definition fetchProducts :: "axios_error + product list \<Rightarrow> app_state \<Rightarrow> app_state" where
  "fetchProducts response s =
     (let s1 = s\<lparr>requests := requests s @ [GET_products]\<rparr> in
      case response of
        Inr data \<Rightarrow> s1\<lparr>products := data\<rparr>
      | Inl error \<Rightarrow>
          toast loadProductsFailedToast
            (s1\<lparr>console := console s1 @ [(''Error fetching products:'', error)]\<rparr>))"

definition fetchOrders :: "axios_error + order list \<Rightarrow> app_state \<Rightarrow> app_state" where
  "fetchOrders response s =
     (let s1 = s\<lparr>requests := requests s @ [GET_orders]\<rparr> in
      case response of
        Inr data \<Rightarrow> s1\<lparr>orders := data\<rparr>
      | Inl error \<Rightarrow>
          toast loadOrdersFailedToast
            (s1\<lparr>console := console s1 @ [(''Error fetching orders:'', error)]\<rparr>))"

subsection \<open>The cart\<close>

text \<open>
  \<open>sameLine\<close> is the test that \<^verbatim>\<open>addToCart\<close> passes both to \<^verbatim>\<open>find\<close> and to
  \<^verbatim>\<open>map\<close>; \<open>defaultNull\<close> is the default \<^verbatim>\<open>selectedOptions = null\<close>, which
  JavaScript applies when the argument is missing or \<^verbatim>\<open>undefined\<close>.
\<close>

definition sameLine :: "product \<Rightarrow> jsval \<Rightarrow> line_item \<Rightarrow> bool" where
  "sameLine product selectedOptions item \<longleftrightarrow>
     product_id item = id' product \<and>
     JSON_stringify (selected_options item) = JSON_stringify selectedOptions"

definition defaultNull :: "jsval \<Rightarrow> jsval" where
  "defaultNull v = (if v = JUndefined then JNull else v)"

definition addToCart :: "product \<Rightarrow> jsval \<Rightarrow> app_state \<Rightarrow> app_state" where
  "addToCart product selectedOptions0 s =
     (let selectedOptions = defaultNull selectedOptions0;
          existingItem = find (sameLine product selectedOptions) (cart s);
          s1 = (case existingItem of
                  Some _ \<Rightarrow>
                    s\<lparr>cart := map (\<lambda>item. if sameLine product selectedOptions item
                                          then item\<lparr>quantity := plusOne (quantity item)\<rparr>
                                          else item) (cart s)\<rparr>
                | None \<Rightarrow>
                    s\<lparr>cart := cart s @
                       [\<lparr>product_id = id' product, product_name = name product,
                         quantity = 1, price = product.price product,
                         selected_options = selectedOptions\<rparr>]\<rparr>)
      in toast (addedToCartToast product) s1)"

text \<open>
  \<open>newLine p opts n\<close> is the line item that \<^verbatim>\<open>addToCart\<close> appends for \<open>p\<close> and
  \<open>opts\<close>, with quantity \<open>n\<close> in place of one; \<open>lineKey\<close> is the pair that
  \<open>sameLine\<close> compares.
\<close>

definition newLine :: "product \<Rightarrow> jsval \<Rightarrow> int \<Rightarrow> line_item" where
  "newLine p opts n =
     \<lparr>product_id = id' p, product_name = name p, quantity = n,
      price = product.price p, selected_options = defaultNull opts\<rparr>"

definition lineKey :: "line_item \<Rightarrow> string \<times> string option" where
  "lineKey item = (product_id item, JSON_stringify (selected_options item))"

text \<open>
  \<^verbatim>\<open>filter\<close> and \<^verbatim>\<open>map\<close> pass the position of each item; an index that is no
  position of the cart (negative, or past the end) selects nothing.
\<close>

definition removeFromCart :: "int \<Rightarrow> app_state \<Rightarrow> app_state" where
  "removeFromCart index s =
     s\<lparr>cart := map snd (filter (\<lambda>(i, _). int i \<noteq> index) (enumerate 0 (cart s)))\<rparr>"

definition updateQuantity :: "int \<Rightarrow> int \<Rightarrow> app_state \<Rightarrow> app_state" where
  "updateQuantity index quantity' s =
     (if quantity' = 0 then removeFromCart index s
      else s\<lparr>cart := map (\<lambda>(i, item). if int i = index then item\<lparr>quantity := quantity'\<rparr> else item)
                         (enumerate 0 (cart s))\<rparr>)"

definition getCartTotal :: "app_state \<Rightarrow> number" where
  "getCartTotal s =
     foldl (\<lambda>total item.
              Number_add total
                (Number_mul (Finite (line_item.price item)) (Finite (of_int (quantity item)))))
           (Finite 0) (cart s)"

text \<open>
  \<open>lineTotal\<close> is the product that \<^verbatim>\<open>getCartTotal\<close> adds for one line item.
  \<open>exactTotal\<close> is the sum of unit price times quantity over the line items, in exact
  arithmetic.  \<open>exactSteps t lines\<close> says that \<^verbatim>\<open>getCartTotal\<close>, having reached the
  running total \<open>t\<close>, rounds nothing on the remaining \<open>lines\<close>: each product and each
  running total is a double as it stands.
\<close>

definition lineTotal :: "line_item \<Rightarrow> number" where
  "lineTotal item = Number_mul (Finite (line_item.price item)) (Finite (of_int (quantity item)))"

definition exactTotal :: "line_item list \<Rightarrow> rat" where
  "exactTotal lines = (\<Sum>item \<leftarrow> lines. line_item.price item * of_int (quantity item))"

fun exactSteps :: "rat \<Rightarrow> line_item list \<Rightarrow> bool" where
  "exactSteps t [] = True"
| "exactSteps t (item # lines) =
     (isDouble (line_item.price item * of_int (quantity item)) \<and>
      isDouble (t + line_item.price item * of_int (quantity item)) \<and>
      exactSteps (t + line_item.price item * of_int (quantity item)) lines)"

subsection \<open>Checkout\<close>

text \<open>
  The handler runs up to \<^verbatim>\<open>await axios.post\<close> and resumes with the outcome of the
  request, here with no other handler run in between.
\<close>

definition handleCheckout :: "axios_error + order \<Rightarrow> app_state \<Rightarrow> app_state" where
  "handleCheckout response s =
     (if customerEmail s = '''' then
        toast emailRequiredToast s
      else if length (cart s) = 0 then
        toast cartEmptyToast s
      else
        (let s1 = s\<lparr>loading := True\<rparr>;
             s2 = s1\<lparr>requests := requests s1 @
                        [POST_orders (customerEmail s1) (customerNote s1) (cart s1)]\<rparr>;
             s3 = (case response of
                     Inr _ \<Rightarrow>
                       toast orderPlacedToast
                         (s2\<lparr>cart := [], customerEmail := '''', customerNote := '''',
                             isCheckoutOpen := False\<rparr>)
                   | Inl error \<Rightarrow>
                       toast orderFailedToast
                         (s2\<lparr>console := console s2 @ [(''Error creating order:'', error)]\<rparr>))
         in s3\<lparr>loading := False\<rparr>))"

subsection \<open>What the admin panel shows\<close>

datatype admin_view = NoOrdersYet | OrderCards "order list"

definition AdminPanel :: "app_state \<Rightarrow> admin_view" where
  "AdminPanel s = (if length (orders s) = 0 then NoOrdersYet else OrderCards (orders s))"

section \<open>Sequences of cart operations\<close>

datatype cart_op =
    AddToCart product jsval
  | RemoveFromCart int
  | UpdateQuantity int int

fun apply_op :: "cart_op \<Rightarrow> app_state \<Rightarrow> app_state" where
  "apply_op (AddToCart p opts) s = addToCart p opts s"
| "apply_op (RemoveFromCart i) s = removeFromCart i s"
| "apply_op (UpdateQuantity i q) s = updateQuantity i q s"

definition run :: "cart_op list \<Rightarrow> app_state \<Rightarrow> app_state" where
  "run ops s = foldl (\<lambda>s' op. apply_op op s') s ops"

section \<open>Example data\<close>

definition productA :: product where
  "productA =
     \<lparr>id' = ''A'', name = ''Product A'', description = ''A logo pack'', price = 10,
      category = ''design'', image_url = ''/img/a.png'', options = JUndefined\<rparr>"

definition productB :: product where
  "productB =
     \<lparr>id' = ''B'', name = ''Product B'', description = ''A short clip'', price = 11 / 2,
      category = ''video'', image_url = ''/img/b.png'', options = JUndefined\<rparr>"

text \<open>The price of \<open>productC\<close> is the double that the literal \<^verbatim>\<open>0.1\<close> denotes.\<close>

definition productC :: product where
  "productC =
     \<lparr>id' = ''C'', name = ''Product C'', description = ''A sticker'',
      price = 3602879701896397 / 36028797018963968,
      category = ''other'', image_url = ''/img/c.png'', options = JUndefined\<rparr>"

definition styleX :: jsval where
  "styleX = JObj [(''style'', JStr ''X'')]"

definition styleUndefined :: jsval where
  "styleUndefined = JObj [(''style'', JUndefined)]"

definition optsAB :: jsval where
  "optsAB = JObj [(''a'', JNum 1), (''b'', JNum 2)]"

definition optsBA :: jsval where
  "optsBA = JObj [(''b'', JNum 2), (''a'', JNum 1)]"

definition twoLineState :: app_state where
  "twoLineState =
     run [AddToCart productB styleX, AddToCart productA JNull, AddToCart productA JNull]
       init_state"

definition filledCart :: "line_item list" where
  "filledCart =
     [\<lparr>product_id = ''A'', product_name = ''Product A'', quantity = 2, price = 10,
       selected_options = JNull\<rparr>]"

definition someOrder :: order where
  "someOrder = Order ''o-1'' ''ann@example.org'' ''gift'' filledCart 20 ''2024-01-01T00:00:00''"

definition readyState :: app_state where
  "readyState =
     init_state\<lparr>cart := filledCart, customerEmail := ''ann@example.org'',
                customerNote := ''gift'', isCheckoutOpen := True\<rparr>"

section \<open>Integers that are doubles\<close>

lemma bits_0: "bits 0 = 0"
  by (simp add: bits.simps [of 0])

lemma bits_1: "bits (Suc 0) = Suc 0"
  by (simp add: bits.simps [of "Suc 0"] bits_0)

lemma bits_bounds: "0 < n \<Longrightarrow> 2 ^ (bits n - 1) \<le> n \<and> n < 2 ^ bits n"
proof (induction n rule: bits.induct)
  case (1 n)
  show ?case
  proof (cases "n div 2 = 0")
    case True
    with "1.prems" have "n = 1" by (simp add: div_eq_0_iff)
    then show ?thesis by (simp add: bits_1)
  next
    case False
    with "1.IH" "1.prems" have ih: "2 ^ (bits (n div 2) - 1) \<le> n div 2" "n div 2 < 2 ^ bits (n div 2)"
      by auto
    from False have pos: "0 < bits (n div 2)" by (simp add: bits.simps [of "n div 2"])
    have b: "bits n = Suc (bits (n div 2))" using "1.prems" by (simp add: bits.simps [of n])
    have "2 ^ (bits n - 1) = 2 * 2 ^ (bits (n div 2) - 1)"
      using pos b by (cases "bits (n div 2)") auto
    also have "\<dots> \<le> 2 * (n div 2)" using ih(1) by simp
    also have "\<dots> \<le> n" by simp
    finally have lo: "2 ^ (bits n - 1) \<le> n" .
    have "n < 2 * (n div 2) + 2" by presburger
    also have "\<dots> \<le> 2 * 2 ^ bits (n div 2)" using ih(2) by simp
    finally have "n < 2 ^ bits n" using b by simp
    with lo show ?thesis by simp
  qed
qed

lemma bits_le: "n < 2 ^ k \<Longrightarrow> bits n \<le> k"
proof (cases "n = 0")
  case True
  then show ?thesis by (simp add: bits_0)
next
  case False
  assume lt: "n < 2 ^ k"
  from False have "(2::nat) ^ (bits n - 1) \<le> n" using bits_bounds [of n] by simp
  then have lo: "(2::nat) ^ (bits n - 1) < 2 ^ k" using lt by (rule le_less_trans)
  have "bits n - 1 < k"
  proof (rule ccontr)
    assume "\<not> bits n - 1 < k"
    then have "k \<le> bits n - 1" by simp
    then have "(2::nat) ^ k \<le> 2 ^ (bits n - 1)" by (rule power_increasing) simp
    with lo show False by simp
  qed
  then show ?thesis by simp
qed

lemma roundHalfEven_of_int: "roundHalfEven (of_int k) = k"
  by (simp add: roundHalfEven_def)

lemma roundToDouble_eq:
  assumes "x \<noteq> 0"
      and "max (floorlog2 \<bar>x\<bar> - 52) (- 1074) = e"
      and "roundHalfEven (\<bar>x\<bar> / pow2 e) = m"
      and "e < 971"
  shows "roundToDouble x = Finite (sgn x * of_int m * pow2 e)"
  using assms by (simp add: roundToDouble_def Let_def)

lemma roundToDouble_of_int:
  assumes "1 \<le> x" and "x \<le> 9007199254740992"
  shows "roundToDouble (of_int x) = Finite (of_int x)"
proof (cases "x = 9007199254740992")
  case True
  have "roundToDouble (of_int 9007199254740992) = Finite (of_int 9007199254740992)"
    by code_simp
  with True show ?thesis by simp
next
  case False
  with assms have lt: "nat x < 2 ^ 53" by (simp add: nat_less_iff)
  define b where "b = bits (nat x)"
  have b53: "b \<le> 53" unfolding b_def using lt by (rule bits_le)
  have b1: "1 \<le> b" unfolding b_def using assms(1) by (simp add: bits.simps [of "nat x"])
  define j where "j = 53 - b"
  have x0: "(of_int x :: rat) \<noteq> 0" and xa: "\<bar>of_int x :: rat\<bar> = of_int x"
    and xs: "sgn (of_int x :: rat) = 1"
    using assms(1) by simp_all
  have fl: "floorlog2 (of_int x) = int b - 1"
    using assms(1) by (simp add: floorlog2_def b_def)
  have e: "max (floorlog2 \<bar>of_int x\<bar> - 52) (- 1074) = - int j"
    unfolding xa fl using b53 b1 by (simp add: j_def)
  have p: "pow2 (- int j) = 1 / 2 ^ j"
    by (cases "j = 0") (simp_all add: pow2_def)
  have q: "\<bar>of_int x :: rat\<bar> / pow2 (- int j) = of_int (x * 2 ^ j)"
    unfolding xa p by simp
  have m: "roundHalfEven (\<bar>of_int x :: rat\<bar> / pow2 (- int j)) = x * 2 ^ j"
    unfolding q by (rule roundHalfEven_of_int)
  have "roundToDouble (of_int x) = Finite (sgn (of_int x) * of_int (x * 2 ^ j) * pow2 (- int j))"
    using x0 e m by (rule roundToDouble_eq) simp
  also have "sgn (of_int x :: rat) * of_int (x * 2 ^ j) * pow2 (- int j) = of_int x"
    unfolding xs p by simp
  finally show ?thesis .
qed

lemma plusOne_exact:
  assumes "0 \<le> q" and "q < 9007199254740992"
  shows "plusOne q = q + 1"
proof -
  have "roundToDouble (of_int (q + 1)) = Finite (of_int (q + 1))"
    using assms by (intro roundToDouble_of_int) simp_all
  then show ?thesis
    by (simp add: plusOne_def add.commute)
qed

lemma plusOne_stuck: "plusOne 9007199254740992 = 9007199254740992"
  by code_simp

lemma plusOne_min:
  assumes "1 \<le> k"
  shows "plusOne (min k 9007199254740992) = min (k + 1) 9007199254740992"
proof (cases "k < 9007199254740992")
  case True
  with assms have "plusOne k = k + 1" by (intro plusOne_exact) simp_all
  with True show ?thesis by simp
next
  case False
  then show ?thesis by (simp add: plusOne_stuck min_def)
qed

section \<open>Facts about the comparison of options\<close>

lemma list_all2_self: "(\<And>x. x \<in> set xs \<Longrightarrow> R x x) \<Longrightarrow> list_all2 R xs xs"
  by (induction xs) auto

text \<open>Deep equality holds between a value and itself.\<close>

lemma deep_equal_refl: "distinctKeys v \<Longrightarrow> deep_equal v v"
proof (induction v)
  case (JArr xs)
  then have "\<And>x. x \<in> set xs \<Longrightarrow> deep_equal x x"
    by (auto simp: list_all_iff)
  then show ?case
    by (simp add: list_all2_map1 list_all2_self)
next
  case (JObj ps)
  have "case map_of ps k of None \<Rightarrow> False | Some w \<Rightarrow> deep_equal v w"
    if "(k, v) \<in> set ps" for k v
  proof -
    from JObj.prems that have "map_of ps k = Some v" by simp
    moreover from JObj.prems that have "distinctKeys v" by (auto simp: list_all_iff)
    with JObj.IH that have "deep_equal v v" by fastforce
    ultimately show ?thesis by simp
  qed
  then show ?case
    by (auto simp: list_all_iff)
qed simp_all

lemma sameLine_lineKey:
  "sameLine p opts item \<longleftrightarrow> lineKey item = (id' p, JSON_stringify opts)"
  by (auto simp: sameLine_def lineKey_def)

lemma sameLine_newLine: "sameLine p (defaultNull opts) (newLine p opts n)"
  by (simp add: sameLine_def newLine_def)

lemma lineKey_quantity: "lineKey (item\<lparr>quantity := q\<rparr>) = lineKey item"
  by (simp add: lineKey_def)

section \<open>The cart after each handler\<close>

lemma cart_toast: "cart (toast t s) = cart s"
  by (simp add: toast_def)

lemma cart_addToCart_new:
  assumes "\<forall>item \<in> set (cart s). \<not> sameLine p (defaultNull opts) item"
  shows "cart (addToCart p opts s) = cart s @ [newLine p opts 1]"
proof -
  have "find (sameLine p (defaultNull opts)) (cart s) = None"
    using assms by (simp add: find_None_iff)
  then show ?thesis
    by (simp add: addToCart_def Let_def cart_toast newLine_def)
qed

lemma cart_addToCart_existing:
  assumes "\<exists>item \<in> set (cart s). sameLine p (defaultNull opts) item"
  shows "cart (addToCart p opts s) =
         map (\<lambda>item. if sameLine p (defaultNull opts) item
                      then item\<lparr>quantity := plusOne (quantity item)\<rparr> else item) (cart s)"
proof -
  have "find (sameLine p (defaultNull opts)) (cart s) \<noteq> None"
    using assms by (auto simp: find_None_iff)
  then show ?thesis
    by (auto simp: addToCart_def Let_def cart_toast)
qed

lemma cart_removeFromCart:
  "cart (removeFromCart i s) = map snd (filter (\<lambda>(j, _). int j \<noteq> i) (enumerate 0 (cart s)))"
  by (simp add: removeFromCart_def)

lemma cart_addToCart_again:
  assumes "\<forall>item \<in> set xs. \<not> sameLine p (defaultNull opts) item"
      and "cart s = xs @ [newLine p opts n]"
  shows "cart (addToCart p opts s) = xs @ [newLine p opts (plusOne n)]"
proof -
  have "\<exists>item \<in> set (cart s). sameLine p (defaultNull opts) item"
    using assms(2) sameLine_newLine by auto
  then have "cart (addToCart p opts s) =
      map (\<lambda>item. if sameLine p (defaultNull opts) item
                   then item\<lparr>quantity := plusOne (quantity item)\<rparr> else item) (cart s)"
    by (rule cart_addToCart_existing)
  also have "\<dots> = xs @ [newLine p opts (plusOne n)]"
  proof -
    have keep: "map (\<lambda>item. if sameLine p (defaultNull opts) item
                   then item\<lparr>quantity := plusOne (quantity item)\<rparr> else item) xs = xs"
      using assms(1) by (intro map_idI) simp
    have bump: "(newLine p opts n)\<lparr>quantity := plusOne (quantity (newLine p opts n))\<rparr>
                = newLine p opts (plusOne n)"
      by (simp add: newLine_def)
    show ?thesis
      by (simp add: assms(2) keep sameLine_newLine bump)
  qed
  finally show ?thesis .
qed

lemma cart_addToCart_funpow:
  assumes "\<forall>item \<in> set (cart s). \<not> sameLine p (defaultNull opts) item"
  shows "cart ((addToCart p opts ^^ Suc m) s)
         = cart s @ [newLine p opts (min (int (Suc m)) 9007199254740992)]"
proof (induction m)
  case 0
  show ?case using cart_addToCart_new [OF assms] by simp
next
  case (Suc m)
  have "cart (addToCart p opts ((addToCart p opts ^^ Suc m) s))
        = cart s @ [newLine p opts (plusOne (min (int (Suc m)) 9007199254740992))]"
    using assms Suc by (rule cart_addToCart_again)
  moreover have "plusOne (min (int (Suc m)) 9007199254740992)
                 = min (int (Suc (Suc m))) 9007199254740992"
    using plusOne_min [of "int (Suc m)"] by (simp add: add.commute)
  ultimately show ?case by simp
qed

section \<open>Line keys stay distinct\<close>

lemma keys_filter_enumerate:
  "distinct (map k xs) \<Longrightarrow> distinct (map k (map snd (filter Q (enumerate n xs))))"
proof (induction xs arbitrary: n)
  case Nil
  then show ?case by simp
next
  case (Cons x xs)
  have sub: "set (map snd (filter Q (enumerate (Suc n) xs))) \<subseteq> set xs"
    by (auto simp: in_set_enumerate_eq)
  from Cons show ?case
    using sub by auto
qed

lemma keys_update_enumerate:
  assumes "\<And>j item. k (g j item) = k item"
  shows "map k (map (\<lambda>(j, item). g j item) (enumerate n xs)) = map k xs"
  using assms by (induction xs arbitrary: n) auto

lemma keys_removeFromCart:
  "distinct (map lineKey (cart s)) \<Longrightarrow> distinct (map lineKey (cart (removeFromCart i s)))"
  unfolding cart_removeFromCart by (rule keys_filter_enumerate)

lemma keys_updateQuantity:
  assumes "distinct (map lineKey (cart s))"
  shows "distinct (map lineKey (cart (updateQuantity i q s)))"
proof (cases "q = 0")
  case True
  then show ?thesis using assms by (simp add: updateQuantity_def keys_removeFromCart)
next
  case False
  have "map lineKey (map (\<lambda>(j, item). if int j = i then item\<lparr>quantity := q\<rparr> else item)
                         (enumerate 0 (cart s))) = map lineKey (cart s)"
    by (rule keys_update_enumerate) (simp add: lineKey_quantity)
  with False assms show ?thesis by (simp add: updateQuantity_def)
qed

lemma keys_addToCart:
  assumes "distinct (map lineKey (cart s))"
  shows "distinct (map lineKey (cart (addToCart p opts s)))"
proof (cases "\<exists>item \<in> set (cart s). sameLine p (defaultNull opts) item")
  case True
  then have c: "cart (addToCart p opts s) =
      map (\<lambda>item. if sameLine p (defaultNull opts) item
                   then item\<lparr>quantity := plusOne (quantity item)\<rparr> else item) (cart s)"
    by (rule cart_addToCart_existing)
  have m: "map lineKey (map (\<lambda>item. if sameLine p (defaultNull opts) item
                      then item\<lparr>quantity := plusOne (quantity item)\<rparr> else item) (cart s))
        = map lineKey (cart s)"
    by (simp add: lineKey_quantity)
  show ?thesis unfolding c m by (rule assms)
next
  case False
  then have new: "\<forall>item \<in> set (cart s). \<not> sameLine p (defaultNull opts) item" by simp
  then have "(id' p, JSON_stringify (defaultNull opts)) \<notin> lineKey ` set (cart s)"
    by (auto simp: sameLine_lineKey)
  with assms show ?thesis
    by (simp add: cart_addToCart_new [OF new] lineKey_def newLine_def)
qed

lemma keys_apply_op:
  "distinct (map lineKey (cart s)) \<Longrightarrow> distinct (map lineKey (cart (apply_op op s)))"
  by (cases op) (simp_all add: keys_addToCart keys_removeFromCart keys_updateQuantity)

lemma keys_run:
  "distinct (map lineKey (cart s)) \<Longrightarrow> distinct (map lineKey (cart (run ops s)))"
  unfolding run_def by (induction ops arbitrary: s) (simp_all add: keys_apply_op)

lemma distinct_finer:
  assumes "distinct (map (\<lambda>x. g (f x)) xs)"
  shows "distinct (map f xs)"
  using assms by (induction xs) auto

section \<open>The total when nothing is rounded\<close>

lemma foldl_exact:
  "exactSteps t lines \<Longrightarrow>
   foldl (\<lambda>total item.
            Number_add total
              (Number_mul (Finite (line_item.price item)) (Finite (of_int (quantity item)))))
         (Finite t) lines
   = Finite (t + exactTotal lines)"
proof (induction lines arbitrary: t)
  case Nil
  then show ?case by (simp add: exactTotal_def)
next
  case (Cons item lines)
  let ?v = "line_item.price item * of_int (quantity item)"
  from Cons.prems have v: "roundToDouble ?v = Finite ?v"
    and tv: "roundToDouble (t + ?v) = Finite (t + ?v)"
    and rest: "exactSteps (t + ?v) lines"
    by (simp_all add: isDouble_def)
  have "foldl (\<lambda>total item.
            Number_add total
              (Number_mul (Finite (line_item.price item)) (Finite (of_int (quantity item)))))
         (Finite t) (item # lines)
        = foldl (\<lambda>total item.
            Number_add total
              (Number_mul (Finite (line_item.price item)) (Finite (of_int (quantity item)))))
         (Finite (t + ?v)) lines"
    by (simp add: v tv)
  also have "\<dots> = Finite (t + ?v + exactTotal lines)"
    using rest by (rule Cons.IH)
  also have "t + ?v + exactTotal lines = t + exactTotal (item # lines)"
    by (simp add: exactTotal_def)
  finally show ?case .
qed

lemma getCartTotal_foldl_map:
  "getCartTotal s = foldl Number_add (Finite 0) (map lineTotal (cart s))"
  by (simp add: getCartTotal_def foldl_map lineTotal_def)

section \<open>Evaluating the examples\<close>

lemma plusOne_1: "plusOne 1 = 2"
  using plusOne_exact [of 1] by simp

lemma plusOne_2: "plusOne 2 = 3"
  using plusOne_exact [of 2] by simp

lemma cart_twoLineState:
  "cart twoLineState
     = [\<lparr>product_id = ''B'', product_name = ''Product B'', quantity = 1, price = 11 / 2,
         selected_options = JObj [(''style'', JStr ''X'')]\<rparr>,
        \<lparr>product_id = ''A'', product_name = ''Product A'', quantity = 2, price = 10,
         selected_options = JNull\<rparr>]"
  by (simp add: twoLineState_def run_def addToCart_def sameLine_def defaultNull_def Let_def
      toast_def init_state_def productA_def productB_def styleX_def plusOne_1
      QuoteJSONString_def QuoteJSONChar_def)

lemma stringify_optsAB_optsBA: "JSON_stringify optsAB \<noteq> JSON_stringify optsBA"
  by code_simp

lemma isDouble_examples:
  "isDouble 20" "isDouble (11 / 2)" "isDouble (51 / 2)" "isDouble (33 / 2)" "isDouble 10"
  "isDouble (3602879701896397 / 36028797018963968)"
  "isDouble (5404319552844596 / 18014398509481984)"
  by code_simp+

lemma tenth_times_three:
  "roundToDouble (3602879701896397 / 36028797018963968 * 3)
     = Finite (5404319552844596 / 18014398509481984)"
  by code_simp

section \<open>Adding to the cart\<close>

text \<open>
  C1, amended.  Take a product \<open>p\<close> and options \<open>opts\<close>, an omitted or
  \<^verbatim>\<open>undefined\<close> argument standing for the default \<^verbatim>\<open>null\<close>, and a cart in which no
  line item has the identifier of \<open>p\<close> together with options whose \<^verbatim>\<open>JSON.stringify\<close>
  text is that of \<open>opts\<close>.  After \<open>n \<ge> 1\<close> calls \<^verbatim>\<open>addToCart(p, opts)\<close> the cart is the
  old cart followed by one new line item, which is the only one with that identifier and
  that text, and the only one carrying the identifier with these very options.  Its
  quantity is \<open>n\<close> as long as \<open>n\<close> is at most \<open>2\<^sup>5\<^sup>3 = 9007199254740992\<close>, and stays
  \<open>2\<^sup>5\<^sup>3\<close> from there on.
\<close>

theorem addToCart_same_options_one_line:
  assumes "1 \<le> n"
      and "\<forall>item \<in> set (cart s). \<not> sameLine p (defaultNull opts) item"
  shows "cart ((addToCart p opts ^^ n) s)
           = cart s @ [newLine p opts (min (int n) 9007199254740992)] \<and>
         filter (sameLine p (defaultNull opts)) (cart ((addToCart p opts ^^ n) s))
           = [newLine p opts (min (int n) 9007199254740992)] \<and>
         filter (\<lambda>item. product_id item = id' p \<and> selected_options item = defaultNull opts)
                (cart ((addToCart p opts ^^ n) s))
           = [newLine p opts (min (int n) 9007199254740992)] \<and>
         (n \<le> 9007199254740992 \<longrightarrow>
            quantity (newLine p opts (min (int n) 9007199254740992)) = int n)"
proof -
  let ?line = "newLine p opts (min (int n) 9007199254740992)"
  from assms(1) obtain m where n: "n = Suc m" by (cases n) auto
  have c: "cart ((addToCart p opts ^^ n) s) = cart s @ [?line]"
    unfolding n using assms(2) by (rule cart_addToCart_funpow)
  have one: "filter (sameLine p (defaultNull opts)) (cart s @ [?line]) = [?line]"
    using assms(2) by (simp add: filter_empty_conv sameLine_newLine)
  have same: "filter (\<lambda>item. product_id item = id' p \<and> selected_options item = defaultNull opts)
               (cart s @ [?line]) = [?line]"
    using assms(2) by (auto simp: filter_empty_conv sameLine_def newLine_def)
  have "n \<le> 9007199254740992 \<longrightarrow> quantity ?line = int n"
    by (simp add: newLine_def)
  with c one same show ?thesis by simp
qed

theorem addToCart_same_options_one_line_witness:
  "cart twoLineState
     = [\<lparr>product_id = ''B'', product_name = ''Product B'', quantity = 1, price = 11 / 2,
         selected_options = JObj [(''style'', JStr ''X'')]\<rparr>,
        \<lparr>product_id = ''A'', product_name = ''Product A'', quantity = 2, price = 10,
         selected_options = JNull\<rparr>] \<and>
   cart ((addToCart productA styleX ^^ 3) twoLineState)
     = [\<lparr>product_id = ''B'', product_name = ''Product B'', quantity = 1, price = 11 / 2,
         selected_options = JObj [(''style'', JStr ''X'')]\<rparr>,
        \<lparr>product_id = ''A'', product_name = ''Product A'', quantity = 2, price = 10,
         selected_options = JNull\<rparr>,
        \<lparr>product_id = ''A'', product_name = ''Product A'', quantity = 3, price = 10,
         selected_options = JObj [(''style'', JStr ''X'')]\<rparr>]"
  using addToCart_same_options_one_line [of 3 twoLineState productA styleX]
  by (simp add: cart_twoLineState sameLine_def newLine_def productA_def styleX_def
      defaultNull_def QuoteJSONString_def QuoteJSONChar_def)

text \<open>
  With "no line item for \<open>(p, opts)\<close>" read by value, the statement fails.  The cart that
  holds Product A with the options \<^verbatim>\<open>{style: undefined}\<close> has no line item for Product A
  with the options \<^verbatim>\<open>{}\<close>, yet two calls \<^verbatim>\<open>addToCart\<close> with \<^verbatim>\<open>{}\<close> leave the one
  line it had, now of quantity three, and no line with the options \<^verbatim>\<open>{}\<close>.  And however
  the start is read, the quantity after \<open>2\<^sup>5\<^sup>3 + 1\<close> calls on the empty cart is \<open>2\<^sup>5\<^sup>3\<close>,
  because \<^verbatim>\<open>9007199254740992 + 1\<close> is \<^verbatim>\<open>9007199254740992\<close> in JavaScript.
\<close>

theorem addToCart_bumps_line_of_other_options:
  "cart (addToCart productA styleUndefined init_state)
     = [\<lparr>product_id = ''A'', product_name = ''Product A'', quantity = 1, price = 10,
         selected_options = JObj [(''style'', JUndefined)]\<rparr>] \<and>
   \<not> deep_equal (JObj [(''style'', JUndefined)]) (JObj []) \<and>
   JObj [(''style'', JUndefined)] \<noteq> JObj [] \<and>
   cart ((addToCart productA (JObj []) ^^ 2) (addToCart productA styleUndefined init_state))
     = [\<lparr>product_id = ''A'', product_name = ''Product A'', quantity = 3, price = 10,
         selected_options = JObj [(''style'', JUndefined)]\<rparr>] \<and>
   cart ((addToCart productA JNull ^^ 9007199254740993) init_state)
     = [\<lparr>product_id = ''A'', product_name = ''Product A'', quantity = 9007199254740992,
         price = 10, selected_options = JNull\<rparr>]"
proof -
  have start: "cart (addToCart productA styleUndefined init_state)
     = [\<lparr>product_id = ''A'', product_name = ''Product A'', quantity = 1, price = 10,
         selected_options = JObj [(''style'', JUndefined)]\<rparr>]"
    by (simp add: styleUndefined_def addToCart_def sameLine_def defaultNull_def Let_def
        toast_def init_state_def productA_def)
  have two: "(addToCart productA (JObj []) ^^ 2)
             = (\<lambda>s. addToCart productA (JObj []) (addToCart productA (JObj []) s))"
    by (simp add: fun_eq_iff numeral_2_eq_2)
  have merged: "cart ((addToCart productA (JObj []) ^^ 2)
                   (addToCart productA styleUndefined init_state))
     = [\<lparr>product_id = ''A'', product_name = ''Product A'', quantity = 3, price = 10,
         selected_options = JObj [(''style'', JUndefined)]\<rparr>]"
    unfolding two
    by (simp add: styleUndefined_def addToCart_def sameLine_def defaultNull_def Let_def
        toast_def init_state_def productA_def plusOne_1 plusOne_2)
  have many: "(9007199254740993::nat) = Suc 9007199254740992"
    by simp
  have "cart ((addToCart productA JNull ^^ Suc 9007199254740992) init_state)
        = cart init_state
          @ [newLine productA JNull (min (int (Suc 9007199254740992)) 9007199254740992)]"
    by (rule cart_addToCart_funpow) (simp add: init_state_def)
  then have stuck: "cart ((addToCart productA JNull ^^ 9007199254740993) init_state)
     = [\<lparr>product_id = ''A'', product_name = ''Product A'', quantity = 9007199254740992,
         price = 10, selected_options = JNull\<rparr>]"
    unfolding many [symmetric]
    by (simp add: init_state_def newLine_def productA_def defaultNull_def)
  from start merged stuck show ?thesis by simp
qed

text \<open>
  C2, amended.  Take a product \<open>p\<close> and two options values, an omitted or \<^verbatim>\<open>undefined\<close>
  argument standing for the default \<^verbatim>\<open>null\<close>, whose \<^verbatim>\<open>JSON.stringify\<close> texts differ.
  After \<^verbatim>\<open>addToCart(p, o1)\<close> and \<^verbatim>\<open>addToCart(p, o2)\<close> on an empty cart, the cart holds
  two distinct line items, each of quantity one.
\<close>

theorem addToCart_differing_options_two_lines:
  assumes "cart s = []"
      and "JSON_stringify (defaultNull o1) \<noteq> JSON_stringify (defaultNull o2)"
  shows "cart (addToCart p o2 (addToCart p o1 s)) = [newLine p o1 1, newLine p o2 1] \<and>
         newLine p o1 1 \<noteq> newLine p o2 1"
proof -
  have c1: "cart (addToCart p o1 s) = [newLine p o1 1]"
    using cart_addToCart_new [of s p o1] assms(1) by simp
  have "\<forall>item \<in> set (cart (addToCart p o1 s)). \<not> sameLine p (defaultNull o2) item"
    using assms(2) by (simp add: c1 sameLine_def newLine_def)
  then have "cart (addToCart p o2 (addToCart p o1 s)) = cart (addToCart p o1 s) @ [newLine p o2 1]"
    by (rule cart_addToCart_new)
  moreover have "newLine p o1 1 \<noteq> newLine p o2 1"
    using assms(2) by (auto simp: newLine_def)
  ultimately show ?thesis by (simp add: c1)
qed

theorem addToCart_differing_options_two_lines_witness:
  "cart init_state = [] \<and>
   cart (addToCart productA styleX (addToCart productA JNull init_state))
     = [\<lparr>product_id = ''A'', product_name = ''Product A'', quantity = 1, price = 10,
         selected_options = JNull\<rparr>,
        \<lparr>product_id = ''A'', product_name = ''Product A'', quantity = 1, price = 10,
         selected_options = JObj [(''style'', JStr ''X'')]\<rparr>]"
  using addToCart_differing_options_two_lines [of init_state JNull styleX productA]
  by (simp add: init_state_def newLine_def productA_def styleX_def defaultNull_def)

text \<open>
  Options that differ by value do not always differ in their \<^verbatim>\<open>JSON.stringify\<close> text.
  The object \<^verbatim>\<open>{style: undefined}\<close>, which is what \<^verbatim>\<open>{ style: style }\<close> yields when no
  style of the chosen name is found, and the empty object \<^verbatim>\<open>{}\<close> are both written
  \<^verbatim>\<open>{}\<close>.  Added one after the other for the same product, they end in a single line
  item of quantity two.  So do \<^verbatim>\<open>undefined\<close> and \<^verbatim>\<open>null\<close>: the default parameter makes
  the first the second before anything is compared.
\<close>

theorem addToCart_merges_options_differing_by_value:
  "\<not> deep_equal styleUndefined (JObj []) \<and>
   styleUndefined \<noteq> JObj [] \<and>
   cart (addToCart productA (JObj []) (addToCart productA styleUndefined init_state))
     = [\<lparr>product_id = ''A'', product_name = ''Product A'', quantity = 2, price = 10,
         selected_options = JObj [(''style'', JUndefined)]\<rparr>] \<and>
   \<not> deep_equal JUndefined JNull \<and>
   JUndefined \<noteq> JNull \<and>
   cart (addToCart productA JNull (addToCart productA JUndefined init_state))
     = [\<lparr>product_id = ''A'', product_name = ''Product A'', quantity = 2, price = 10,
         selected_options = JNull\<rparr>]"
  by (simp add: styleUndefined_def addToCart_def sameLine_def defaultNull_def Let_def
      toast_def init_state_def productA_def plusOne_1)

section \<open>No two line items with the same key\<close>

text \<open>
  C3, amended.  In every cart reached from the empty cart by \<^verbatim>\<open>addToCart\<close>,
  \<^verbatim>\<open>removeFromCart\<close> and \<^verbatim>\<open>updateQuantity\<close>, no two line items have the same product
  identifier and the same \<^verbatim>\<open>JSON.stringify\<close> text of their selected options.  In
  particular no two have the same product identifier and identical options, property for
  property in the same order.
\<close>

theorem cart_lines_unique:
  "distinct (map lineKey (cart (run ops init_state))) \<and>
   distinct (map (\<lambda>item. (product_id item, selected_options item)) (cart (run ops init_state)))"
proof -
  have k: "distinct (map lineKey (cart (run ops init_state)))"
    by (rule keys_run) (simp add: init_state_def)
  have "lineKey = (\<lambda>item. (\<lambda>(i, v). (i, JSON_stringify v)) (product_id item, selected_options item))"
    by (simp add: fun_eq_iff lineKey_def)
  with k have "distinct (map (\<lambda>item. (\<lambda>(i, v). (i, JSON_stringify v))
                               (product_id item, selected_options item))
                            (cart (run ops init_state)))"
    by simp
  then have "distinct (map (\<lambda>item. (product_id item, selected_options item))
                           (cart (run ops init_state)))"
    by (rule distinct_finer)
  with k show ?thesis by simp
qed

theorem cart_lines_unique_witness:
  "distinct (map lineKey (cart (run [AddToCart productA optsAB, UpdateQuantity 0 4,
      AddToCart productA optsAB, AddToCart productB optsAB, RemoveFromCart 7] init_state)))"
  using cart_lines_unique [of "[AddToCart productA optsAB, UpdateQuantity 0 4,
      AddToCart productA optsAB, AddToCart productB optsAB, RemoveFromCart 7]"] by simp

text \<open>
  Compared by deep value, two line items of a reachable cart can carry the same pair.  The
  objects \<^verbatim>\<open>{a: 1, b: 2}\<close> and \<^verbatim>\<open>{b: 2, a: 1}\<close> are deeply equal, but their
  \<^verbatim>\<open>JSON.stringify\<close> texts list the properties in different orders, so the second
  \<^verbatim>\<open>addToCart\<close> appends a second line item for the same product.
\<close>

theorem cart_two_lines_same_deep_value:
  "deep_equal optsAB optsBA \<and>
   cart (run [AddToCart productA optsAB, AddToCart productA optsBA] init_state)
     = [\<lparr>product_id = ''A'', product_name = ''Product A'', quantity = 1, price = 10,
         selected_options = optsAB\<rparr>,
        \<lparr>product_id = ''A'', product_name = ''Product A'', quantity = 1, price = 10,
         selected_options = optsBA\<rparr>]"
proof -
  have "deep_equal optsAB optsBA"
    by (simp add: optsAB_def optsBA_def)
  moreover have "defaultNull optsAB = optsAB" "defaultNull optsBA = optsBA"
    by (simp_all add: optsAB_def optsBA_def defaultNull_def)
  ultimately show ?thesis
    using stringify_optsAB_optsBA
    by (simp add: run_def addToCart_def sameLine_def Let_def toast_def init_state_def
        productA_def)
qed

section \<open>The cart total\<close>

text \<open>
  C4, amended.  After any sequence of \<^verbatim>\<open>addToCart\<close>, \<^verbatim>\<open>removeFromCart\<close> and
  \<^verbatim>\<open>updateQuantity\<close>, \<^verbatim>\<open>getCartTotal()\<close> is computed from the line items now in the cart
  alone: it is the sum, taken from zero in cart order in JavaScript's floating point
  arithmetic, of unit price times quantity.  It equals the exact sum of unit price times
  quantity whenever no product and no running total has to be rounded.  Adding Product A
  (price 10.00) twice and Product B (price 5.50) once gives a cart of A with quantity 2 and
  B with quantity 1, and the total 25.50.
\<close>

theorem getCartTotal_is_float_sum:
  "getCartTotal (run ops init_state)
     = foldl Number_add (Finite 0) (map lineTotal (cart (run ops init_state))) \<and>
   (exactSteps 0 (cart (run ops init_state)) \<longrightarrow>
      getCartTotal (run ops init_state) = Finite (exactTotal (cart (run ops init_state)))) \<and>
   cart (run [AddToCart productA JNull, AddToCart productA JNull, AddToCart productB JNull]
          init_state)
     = [\<lparr>product_id = ''A'', product_name = ''Product A'', quantity = 2, price = 10,
         selected_options = JNull\<rparr>,
        \<lparr>product_id = ''B'', product_name = ''Product B'', quantity = 1, price = 11 / 2,
         selected_options = JNull\<rparr>] \<and>
   getCartTotal (run [AddToCart productA JNull, AddToCart productA JNull,
                      AddToCart productB JNull] init_state) = Finite (51 / 2)"
proof -
  have exact: "getCartTotal s = Finite (exactTotal (cart s))" if "exactSteps 0 (cart s)" for s
    using foldl_exact [OF that] by (simp add: getCartTotal_def)
  have c: "cart (run [AddToCart productA JNull, AddToCart productA JNull,
        AddToCart productB JNull] init_state)
     = [\<lparr>product_id = ''A'', product_name = ''Product A'', quantity = 2, price = 10,
         selected_options = JNull\<rparr>,
        \<lparr>product_id = ''B'', product_name = ''Product B'', quantity = 1, price = 11 / 2,
         selected_options = JNull\<rparr>]"
    by (simp add: run_def addToCart_def sameLine_def defaultNull_def Let_def
      toast_def init_state_def productA_def productB_def plusOne_1)
  have "exactSteps 0 (cart (run [AddToCart productA JNull, AddToCart productA JNull,
        AddToCart productB JNull] init_state))"
    by (simp add: c isDouble_examples)
  then have "getCartTotal (run [AddToCart productA JNull, AddToCart productA JNull,
                      AddToCart productB JNull] init_state) = Finite (51 / 2)"
    by (simp add: exact c exactTotal_def)
  with exact c show ?thesis
    by (simp add: getCartTotal_foldl_map)
qed

theorem getCartTotal_is_float_sum_witness:
  "exactSteps 0 (cart (run [AddToCart productA JNull, AddToCart productB styleX,
                            UpdateQuantity 1 3, RemoveFromCart 0] init_state)) \<and>
   getCartTotal (run [AddToCart productA JNull, AddToCart productB styleX, UpdateQuantity 1 3,
                      RemoveFromCart 0] init_state) = Finite (33 / 2)"
proof -
  have c: "cart (run [AddToCart productA JNull, AddToCart productB styleX,
                      UpdateQuantity 1 3, RemoveFromCart 0] init_state)
     = [\<lparr>product_id = ''B'', product_name = ''Product B'', quantity = 3, price = 11 / 2,
         selected_options = JObj [(''style'', JStr ''X'')]\<rparr>]"
    by (simp add: run_def addToCart_def sameLine_def defaultNull_def Let_def
      toast_def init_state_def productA_def productB_def styleX_def updateQuantity_def
      removeFromCart_def enumerate_eq_zip upt_rec
      QuoteJSONString_def QuoteJSONChar_def)
  have ex: "exactSteps 0 (cart (run [AddToCart productA JNull, AddToCart productB styleX,
                      UpdateQuantity 1 3, RemoveFromCart 0] init_state))"
    by (simp add: c isDouble_examples)
  have "getCartTotal (run [AddToCart productA JNull, AddToCart productB styleX,
                      UpdateQuantity 1 3, RemoveFromCart 0] init_state)
        = Finite (exactTotal (cart (run [AddToCart productA JNull, AddToCart productB styleX,
                      UpdateQuantity 1 3, RemoveFromCart 0] init_state)))"
    using getCartTotal_is_float_sum [of "[AddToCart productA JNull, AddToCart productB styleX,
                      UpdateQuantity 1 3, RemoveFromCart 0]"] ex
    by blast
  then have "getCartTotal (run [AddToCart productA JNull, AddToCart productB styleX,
                      UpdateQuantity 1 3, RemoveFromCart 0] init_state) = Finite (33 / 2)"
    by (simp add: c exactTotal_def)
  with ex show ?thesis by simp
qed

text \<open>
  The total is not always the exact sum.  Product C costs \<^verbatim>\<open>0.1\<close>, that is the double
  \<open>3602879701896397 / 2\<^sup>5\<^sup>5\<close>.  Three of it cost \<open>10808639105689191 / 2\<^sup>5\<^sup>5\<close> exactly, which
  is no double; \<^verbatim>\<open>getCartTotal()\<close> returns the double next to it,
  \<open>5404319552844596 / 2\<^sup>5\<^sup>4\<close>, printed \<^verbatim>\<open>0.30000000000000004\<close>.
\<close>

theorem getCartTotal_rounds_the_sum:
  "cart (run [AddToCart productC JNull, AddToCart productC JNull, AddToCart productC JNull]
          init_state)
     = [\<lparr>product_id = ''C'', product_name = ''Product C'', quantity = 3,
         price = 3602879701896397 / 36028797018963968, selected_options = JNull\<rparr>] \<and>
   isDouble (3602879701896397 / 36028797018963968) \<and>
   getCartTotal (run [AddToCart productC JNull, AddToCart productC JNull,
                      AddToCart productC JNull] init_state)
     = Finite (5404319552844596 / 18014398509481984) \<and>
   exactTotal (cart (run [AddToCart productC JNull, AddToCart productC JNull,
                          AddToCart productC JNull] init_state))
     = 10808639105689191 / 36028797018963968 \<and>
   getCartTotal (run [AddToCart productC JNull, AddToCart productC JNull,
                      AddToCart productC JNull] init_state)
     \<noteq> Finite (exactTotal (cart (run [AddToCart productC JNull, AddToCart productC JNull,
                                     AddToCart productC JNull] init_state)))"
proof -
  have c: "cart (run [AddToCart productC JNull, AddToCart productC JNull,
                      AddToCart productC JNull] init_state)
     = [\<lparr>product_id = ''C'', product_name = ''Product C'', quantity = 3,
         price = 3602879701896397 / 36028797018963968, selected_options = JNull\<rparr>]"
    by (simp add: run_def addToCart_def sameLine_def defaultNull_def Let_def
      toast_def init_state_def productC_def plusOne_1 plusOne_2)
  have t: "getCartTotal (run [AddToCart productC JNull, AddToCart productC JNull,
                      AddToCart productC JNull] init_state)
     = Finite (5404319552844596 / 18014398509481984)"
    using tenth_times_three isDouble_examples(6) isDouble_examples(7)
    by (simp add: getCartTotal_def c isDouble_def)
  have e: "exactTotal (cart (run [AddToCart productC JNull, AddToCart productC JNull,
                          AddToCart productC JNull] init_state))
     = 10808639105689191 / 36028797018963968"
    by (simp add: c exactTotal_def)
  show ?thesis
    unfolding t e using c isDouble_examples(6) by simp
qed

section \<open>Setting the quantity to zero removes the line\<close>

text \<open>
  C5.  For every cart state and every index \<open>i\<close>, \<^verbatim>\<open>updateQuantity(i, 0)\<close> produces
  exactly the state that \<^verbatim>\<open>removeFromCart(i)\<close> produces.
\<close>

theorem updateQuantity_zero_is_remove:
  "updateQuantity i 0 s = removeFromCart i s"
  by (simp add: updateQuantity_def)

theorem updateQuantity_zero_is_remove_witness:
  "cart (updateQuantity 0 0 readyState) = [] \<and> cart (removeFromCart 0 readyState) = []"
  using updateQuantity_zero_is_remove [of 0 readyState]
  by (simp add: removeFromCart_def readyState_def filledCart_def)

section \<open>Checkout\<close>

text \<open>
  C6.  With an empty customer email, whatever the cart holds, \<^verbatim>\<open>handleCheckout\<close> sends no
  request and changes nothing in the state (cart, email, note, open views); it only shows
  the email-required notification.  With an email but an empty cart it likewise sends no
  request and changes nothing, and shows the cart-is-empty notification.
\<close>

theorem handleCheckout_rejected:
  "(customerEmail s = '''' \<longrightarrow>
      handleCheckout response s = s\<lparr>toasts := toasts s @ [emailRequiredToast]\<rparr> \<and>
      requests (handleCheckout response s) = requests s) \<and>
   (customerEmail s \<noteq> '''' \<and> cart s = [] \<longrightarrow>
      handleCheckout response s = s\<lparr>toasts := toasts s @ [cartEmptyToast]\<rparr> \<and>
      requests (handleCheckout response s) = requests s)"
  by (simp add: handleCheckout_def toast_def)

theorem handleCheckout_rejected_witness:
  "handleCheckout (Inr someOrder) (init_state\<lparr>cart := filledCart, customerNote := ''gift''\<rparr>)
     = init_state\<lparr>cart := filledCart, customerNote := ''gift'', toasts := [emailRequiredToast]\<rparr> \<and>
   handleCheckout (Inr someOrder) (init_state\<lparr>customerEmail := ''ann@example.org''\<rparr>)
     = init_state\<lparr>customerEmail := ''ann@example.org'', toasts := [cartEmptyToast]\<rparr>"
  using handleCheckout_rejected [of "init_state\<lparr>cart := filledCart, customerNote := ''gift''\<rparr>"
          "Inr someOrder"]
        handleCheckout_rejected [of "init_state\<lparr>customerEmail := ''ann@example.org''\<rparr>"
          "Inr someOrder"]
  by (simp add: init_state_def)

text \<open>
  C7.  Let a submission pass both guards.  If the POST succeeds, then afterwards the cart
  is empty, email and note are the empty string and the checkout view is closed.  If the
  POST fails, then cart, email and note are what they were before the submission, and the
  checkout view is as it was.  Either way exactly the one order request was sent.
\<close>

theorem handleCheckout_outcome:
  assumes "customerEmail s \<noteq> ''''" and "cart s \<noteq> []"
  shows "cart (handleCheckout (Inr created) s) = [] \<and>
         customerEmail (handleCheckout (Inr created) s) = '''' \<and>
         customerNote (handleCheckout (Inr created) s) = '''' \<and>
         \<not> isCheckoutOpen (handleCheckout (Inr created) s) \<and>
         toasts (handleCheckout (Inr created) s) = toasts s @ [orderPlacedToast] \<and>
         cart (handleCheckout (Inl error) s) = cart s \<and>
         customerEmail (handleCheckout (Inl error) s) = customerEmail s \<and>
         customerNote (handleCheckout (Inl error) s) = customerNote s \<and>
         isCheckoutOpen (handleCheckout (Inl error) s) = isCheckoutOpen s \<and>
         toasts (handleCheckout (Inl error) s) = toasts s @ [orderFailedToast] \<and>
         requests (handleCheckout (Inr created) s)
           = requests s @ [POST_orders (customerEmail s) (customerNote s) (cart s)] \<and>
         requests (handleCheckout (Inl error) s)
           = requests s @ [POST_orders (customerEmail s) (customerNote s) (cart s)]"
  using assms by (simp add: handleCheckout_def toast_def Let_def)

theorem handleCheckout_outcome_witness:
  "customerEmail readyState = ''ann@example.org'' \<and>
   cart readyState = filledCart \<and>
   cart (handleCheckout (Inr someOrder) readyState) = [] \<and>
   customerEmail (handleCheckout (Inr someOrder) readyState) = '''' \<and>
   customerNote (handleCheckout (Inr someOrder) readyState) = '''' \<and>
   isCheckoutOpen (handleCheckout (Inr someOrder) readyState) = False \<and>
   cart (handleCheckout (Inl NetworkError) readyState) = filledCart \<and>
   customerEmail (handleCheckout (Inl NetworkError) readyState) = ''ann@example.org'' \<and>
   customerNote (handleCheckout (Inl NetworkError) readyState) = ''gift'' \<and>
   isCheckoutOpen (handleCheckout (Inl NetworkError) readyState) = True"
  using handleCheckout_outcome [of readyState someOrder NetworkError]
  by (simp add: readyState_def init_state_def filledCart_def)

text \<open>
  C10.  When the email is empty and the cart is empty too, \<^verbatim>\<open>handleCheckout\<close> shows the
  email-required notification and not the cart-is-empty one, because the email guard comes
  first; no request is sent.
\<close>

theorem handleCheckout_email_guard_first:
  assumes "customerEmail s = ''''" and "cart s = []"
  shows "toasts (handleCheckout response s) = toasts s @ [emailRequiredToast] \<and>
         emailRequiredToast \<noteq> cartEmptyToast \<and>
         requests (handleCheckout response s) = requests s"
  using assms by (simp add: handleCheckout_def toast_def emailRequiredToast_def cartEmptyToast_def)

theorem handleCheckout_email_guard_first_witness:
  "customerEmail init_state = '''' \<and> cart init_state = [] \<and>
   toasts (handleCheckout (Inl NetworkError) init_state) = [emailRequiredToast] \<and>
   requests (handleCheckout (Inl NetworkError) init_state) = []"
  using handleCheckout_email_guard_first [of init_state "Inl NetworkError"]
  by (simp add: init_state_def)

section \<open>Failed loads\<close>

text \<open>
  C8, amended.  When \<^verbatim>\<open>fetchOrders\<close> fails, an error notification is shown and the orders
  are left as they were, so the admin panel shows what it showed before.  It shows no
  orders when there were none before the call, as in the initial state.
\<close>

theorem fetchOrders_failure_keeps_orders:
  "fetchOrders (Inl error) s
     = s\<lparr>requests := requests s @ [GET_orders],
         console := console s @ [(''Error fetching orders:'', error)],
         toasts := toasts s @ [loadOrdersFailedToast]\<rparr> \<and>
   orders (fetchOrders (Inl error) s) = orders s \<and>
   AdminPanel (fetchOrders (Inl error) s) = AdminPanel s \<and>
   AdminPanel (fetchOrders (Inl error) init_state) = NoOrdersYet"
  by (simp add: fetchOrders_def toast_def Let_def AdminPanel_def init_state_def)

theorem fetchOrders_failure_keeps_orders_witness:
  "AdminPanel (fetchOrders (Inl (BadStatus 500)) (init_state\<lparr>isAdminOpen := True\<rparr>))
     = NoOrdersYet \<and>
   toasts (fetchOrders (Inl (BadStatus 500)) (init_state\<lparr>isAdminOpen := True\<rparr>))
     = [loadOrdersFailedToast]"
  using fetchOrders_failure_keeps_orders [of "BadStatus 500" "init_state\<lparr>isAdminOpen := True\<rparr>"]
  by (simp add: AdminPanel_def init_state_def)

text \<open>
  After a load that brought one order, a second load that fails leaves that order on
  display: the list is not empty.
\<close>

theorem fetchOrders_failure_shows_stale_orders:
  "AdminPanel (fetchOrders (Inl NetworkError) (fetchOrders (Inr [someOrder]) init_state))
     = OrderCards [someOrder] \<and>
   orders (fetchOrders (Inl NetworkError) (fetchOrders (Inr [someOrder]) init_state)) \<noteq> [] \<and>
   toasts (fetchOrders (Inl NetworkError) (fetchOrders (Inr [someOrder]) init_state))
     = [loadOrdersFailedToast]"
  by (simp add: fetchOrders_def toast_def Let_def AdminPanel_def init_state_def)

text \<open>
  C9.  When \<^verbatim>\<open>fetchProducts\<close> fails, the error notification is shown, the product list
  is what it was before the call, and the one request made is not repeated.
\<close>

theorem fetchProducts_failure_keeps_products:
  "fetchProducts (Inl error) s
     = s\<lparr>requests := requests s @ [GET_products],
         console := console s @ [(''Error fetching products:'', error)],
         toasts := toasts s @ [loadProductsFailedToast]\<rparr> \<and>
   products (fetchProducts (Inl error) s) = products s \<and>
   toasts (fetchProducts (Inl error) s) = toasts s @ [loadProductsFailedToast] \<and>
   requests (fetchProducts (Inl error) s) = requests s @ [GET_products]"
  by (simp add: fetchProducts_def toast_def Let_def)

theorem fetchProducts_failure_keeps_products_witness:
  "products (fetchProducts (Inl NetworkError) (init_state\<lparr>products := [productA, productB]\<rparr>))
     = [productA, productB] \<and>
   requests (fetchProducts (Inl NetworkError) (init_state\<lparr>products := [productA, productB]\<rparr>))
     = [GET_products]"
  using fetchProducts_failure_keeps_products
          [of NetworkError "init_state\<lparr>products := [productA, productB]\<rparr>"]
  by (simp add: init_state_def)


end
